theory Spec2Isabelle
  imports Main
begin

section \<open>Python values used by \<^verbatim>\<open>pypwrctrl/main.py\<close>\<close>

text \<open>
  A Python \<^verbatim>\<open>str\<close> is modelled as a \<^typ>\<open>string\<close> whose characters are the code points
  below 256; Python's unbounded \<^verbatim>\<open>int\<close> is \<^typ>\<open>int\<close>. The limit of recent
  interpreters on the number of digits that \<^verbatim>\<open>str(int)\<close> and \<^verbatim>\<open>int(str)\<close> convert
  (4300 by default) is not modelled.
\<close>

datatype error =
    ValueError
  | DuplicateSectionError
  | NoSectionError
  | NoOptionError
  | InterpolationSyntaxError
  | InterpolationMissingOptionError
  | InterpolationDepthError
  | DuplicateAddress
  | NetworkFailure

definition is_digit :: "char \<Rightarrow> bool" where
  "is_digit c = (c \<in> set ''0123456789'')"

definition digit_of :: "char \<Rightarrow> nat option" where
  "digit_of c = map_of (zip ''0123456789'' [0, 1, 2, 3, 4, 5, 6, 7, 8, 9]) c"

definition digit_char :: "nat \<Rightarrow> char" where
  "digit_char d = ''0123456789'' ! d"

text \<open>The characters below 256 that \<^verbatim>\<open>str.isspace\<close> accepts; \<^verbatim>\<open>int\<close> strips them.\<close>

definition is_space :: "char \<Rightarrow> bool" where
  "is_space c = ((of_char c :: nat) \<in> set [9, 10, 11, 12, 13, 28, 29, 30, 31, 32, 133, 160])"

text \<open>\<^verbatim>\<open>str.lower\<close> on the characters below 256.\<close>

definition lower_char :: "char \<Rightarrow> char" where
  "lower_char c = (let n = (of_char c :: nat) in
     if (65 \<le> n \<and> n \<le> 90) \<or> (192 \<le> n \<and> n \<le> 222 \<and> n \<noteq> 215)
     then char_of (n + 32) else c)"

text \<open>\<^verbatim>\<open>str(n)\<close> for an integer.\<close>

fun str_nat :: "nat \<Rightarrow> string" where
  "str_nat n = (if n < 10 then [digit_char n] else str_nat (n div 10) @ [digit_char (n mod 10)])"

declare str_nat.simps [simp del]

definition py_str :: "int \<Rightarrow> string" where
  "py_str i = (if i < 0 then CHR ''-'' # str_nat (nat (- i)) else str_nat (nat i))"

text \<open>
  \<^verbatim>\<open>int(s)\<close> for a string, base ten: surrounding white space is stripped, one sign is
  allowed, and the digits may be grouped by single underscores. \<open>None\<close> is the
  \<^verbatim>\<open>ValueError\<close> of the source.
\<close>

fun int_digits :: "nat \<Rightarrow> string \<Rightarrow> nat option" where
  "int_digits acc [] = Some acc"
| "int_digits acc [c] =
     (case digit_of c of None \<Rightarrow> None | Some v \<Rightarrow> Some (10 * acc + v))"
| "int_digits acc (c # d # cs) =
     (if c = CHR ''_''
      then (case digit_of d of None \<Rightarrow> None | Some v \<Rightarrow> int_digits (10 * acc + v) cs)
      else (case digit_of c of None \<Rightarrow> None | Some v \<Rightarrow> int_digits (10 * acc + v) (d # cs)))"

definition int_body :: "string \<Rightarrow> nat option" where
  "int_body s =
     (case s of [] \<Rightarrow> None
      | c # cs \<Rightarrow> (case digit_of c of None \<Rightarrow> None | Some v \<Rightarrow> int_digits v cs))"

definition strip :: "string \<Rightarrow> string" where
  "strip s = rev (dropWhile is_space (rev (dropWhile is_space s)))"

definition py_int :: "string \<Rightarrow> int option" where
  "py_int s =
     (case strip s of [] \<Rightarrow> None
      | c # cs \<Rightarrow>
          if c = CHR ''-'' then map_option (\<lambda>n. - int n) (int_body cs)
          else if c = CHR ''+'' then map_option int (int_body cs)
          else map_option int (int_body (c # cs)))"

text \<open>
  \<^verbatim>\<open>print(s)\<close>: the standard output is a string, and each call appends its text and a
  newline.
\<close>

definition print :: "string \<Rightarrow> string \<Rightarrow> string" where
  "print out s = out @ s @ [CHR 0x0A]"

section \<open>The configuration library\<close>

text \<open>
  \<^verbatim>\<open>configparser.ConfigParser\<close> with its default settings, as the program uses it: the
  sections in the order of their creation, each an ordered dictionary of options, and
  the options of the \<^verbatim>\<open>DEFAULT\<close> section, which every section inherits. The text of
  the file is not modelled: the file holds a parser's state, \<^verbatim>\<open>write\<close> stores it and
  \<^verbatim>\<open>read\<close> returns it (or the empty state when there is no file).
\<close>

type_synonym odict = "(string \<times> string) list"

record config =
  defaults :: odict
  sections :: "(string \<times> odict) list"

definition ConfigParser :: config where
  "ConfigParser = \<lparr>defaults = [], sections = []\<rparr>"

definition default_section :: string where
  "default_section = ''DEFAULT''"

definition MAX_INTERPOLATION_DEPTH :: nat where
  "MAX_INTERPOLATION_DEPTH = 10"

definition optionxform :: "string \<Rightarrow> string" where
  "optionxform option = map lower_char option"

text \<open>\<^verbatim>\<open>d[k] = v\<close> on an ordered dictionary: a key that is present keeps its place.\<close>

fun dict_set :: "odict \<Rightarrow> string \<Rightarrow> string \<Rightarrow> odict" where
  "dict_set [] k v = [(k, v)]"
| "dict_set ((k', v') # d) k v = (if k' = k then (k, v) # d else (k', v') # dict_set d k v)"

text \<open>
  The pattern \<^verbatim>\<open>%\(([^)]+)\)s\<close> of the basic interpolation, matched at the start of a
  string: the name in the parentheses and the text after the match.
\<close>

definition keycre_match :: "string \<Rightarrow> (string \<times> string) option" where
  "keycre_match s =
     (if take 2 s = ''%(''
      then (let var = takeWhile (\<lambda>c. c \<noteq> CHR '')'') (drop 2 s);
                r = dropWhile (\<lambda>c. c \<noteq> CHR '')'') (drop 2 s)
            in if var \<noteq> [] \<and> take 2 r = '')s'' then Some (var, drop 2 r) else None)
      else None)"

text \<open>\<^verbatim>\<open>_KEYCRE.sub('', s)\<close>: every match of the pattern is removed, from the left.\<close>

function keycre_sub :: "string \<Rightarrow> string" where
  "keycre_sub [] = []"
| "keycre_sub (c # cs) =
     (case keycre_match (c # cs) of
        Some (var, r) \<Rightarrow> keycre_sub r
      | None \<Rightarrow> c # keycre_sub cs)"
  by pat_completeness auto
termination
proof (relation "measure length")
  fix c cs x2 var r
  assume a: "keycre_match (c # cs) = Some x2" "(var, r) = x2"
  let ?t = "dropWhile (\<lambda>c. c \<noteq> CHR '')'') (drop 2 (c # cs))"
  have "length ?t \<le> length (drop 2 (c # cs))"
    by (rule length_dropWhile_le)
  moreover from a have "r = drop 2 ?t"
    by (auto simp: keycre_match_def Let_def split: if_splits)
  ultimately show "(r, c # cs) \<in> measure length" by simp
qed auto

text \<open>\<^verbatim>\<open>value.replace('%%', '')\<close>.\<close>

fun remove_escaped :: "string \<Rightarrow> string" where
  "remove_escaped (a # b # cs) =
     (if a = CHR ''%'' \<and> b = CHR ''%'' then remove_escaped cs else a # remove_escaped (b # cs))"
| "remove_escaped cs = cs"

definition before_set :: "string \<Rightarrow> error + string" where
  "before_set v =
     (if CHR ''%'' \<in> set (keycre_sub (remove_escaped v)) then Inl ValueError else Inr v)"

text \<open>
  \<^verbatim>\<open>BasicInterpolation._interpolate_some\<close>; the result is the text the source
  appends to \<^verbatim>\<open>accum\<close>. \<open>mp\<close> is the chain of the section's options and the
  defaults.
\<close>

definition chain_lookup :: "odict \<Rightarrow> odict \<Rightarrow> string \<Rightarrow> string option" where
  "chain_lookup sectiondict dflt k =
     (case map_of sectiondict k of Some v \<Rightarrow> Some v | None \<Rightarrow> map_of dflt k)"

function interpolate_some :: "nat \<Rightarrow> (string \<Rightarrow> string option) \<Rightarrow> string \<Rightarrow> error + string" where
  "interpolate_some depth mp rest =
     (if depth > MAX_INTERPOLATION_DEPTH then Inl InterpolationDepthError
      else if rest = [] then Inr []
      else if CHR ''%'' \<notin> set rest then Inr rest
      else if take 1 (tl (dropWhile (\<lambda>c. c \<noteq> CHR ''%'') rest)) = ''%''
      then (case interpolate_some depth mp (drop 2 (dropWhile (\<lambda>c. c \<noteq> CHR ''%'') rest)) of
              Inl e \<Rightarrow> Inl e
            | Inr s \<Rightarrow> Inr (takeWhile (\<lambda>c. c \<noteq> CHR ''%'') rest @ ''%'' @ s))
      else if take 1 (tl (dropWhile (\<lambda>c. c \<noteq> CHR ''%'') rest)) = ''(''
      then (case keycre_match (dropWhile (\<lambda>c. c \<noteq> CHR ''%'') rest) of
              None \<Rightarrow> Inl InterpolationSyntaxError
            | Some (var, r) \<Rightarrow>
                (case mp (optionxform var) of
                   None \<Rightarrow> Inl InterpolationMissingOptionError
                 | Some v \<Rightarrow>
                     (case (if CHR ''%'' \<in> set v then interpolate_some (depth + 1) mp v
                            else Inr v) of
                        Inl e \<Rightarrow> Inl e
                      | Inr s1 \<Rightarrow>
                          (case interpolate_some depth mp r of
                             Inl e \<Rightarrow> Inl e
                           | Inr s2 \<Rightarrow>
                               Inr (takeWhile (\<lambda>c. c \<noteq> CHR ''%'') rest @ s1 @ s2)))))
      else Inl InterpolationSyntaxError)"
  by pat_completeness auto
termination
proof (relation "measures [\<lambda>(depth, mp, rest). Suc MAX_INTERPOLATION_DEPTH - depth,
                           \<lambda>(depth, mp, rest). length rest]")
  fix depth :: nat and mp :: "string \<Rightarrow> string option" and rest :: string
  let ?d = "dropWhile (\<lambda>c. c \<noteq> CHR ''%'') rest"
  assume "rest \<noteq> []"
  then have d: "length (drop 2 ?d) < length rest"
    using length_dropWhile_le [of "\<lambda>c. c \<noteq> CHR ''%''" rest] by (cases rest) auto
  show "((depth, mp, drop 2 ?d), (depth, mp, rest))
        \<in> measures [\<lambda>(depth, mp, rest). Suc MAX_INTERPOLATION_DEPTH - depth,
                     \<lambda>(depth, mp, rest). length rest]"
    using d by simp
  fix x2 var r
  assume a: "keycre_match ?d = Some x2" "(var, r) = x2"
  let ?t = "dropWhile (\<lambda>c. c \<noteq> CHR '')'') (drop 2 ?d)"
  have "length ?t \<le> length (drop 2 ?d)"
    by (rule length_dropWhile_le)
  moreover from a have "r = drop 2 ?t"
    by (auto simp: keycre_match_def Let_def split: if_splits)
  ultimately have "length r < length rest" using d by simp
  then show "((depth, mp, r), (depth, mp, rest))
        \<in> measures [\<lambda>(depth, mp, rest). Suc MAX_INTERPOLATION_DEPTH - depth,
                     \<lambda>(depth, mp, rest). length rest]"
    by simp
qed (auto simp: MAX_INTERPOLATION_DEPTH_def)

declare interpolate_some.simps [simp del]

definition before_get :: "(string \<Rightarrow> string option) \<Rightarrow> string \<Rightarrow> error + string" where
  "before_get mp v = interpolate_some 1 mp v"

text \<open>The methods of the parser that the program calls.\<close>

definition cfg_sections :: "config \<Rightarrow> string list" where
  "cfg_sections cfg = map fst (sections cfg)"

definition add_section :: "config \<Rightarrow> string \<Rightarrow> error + config" where
  "add_section cfg section =
     (if section = default_section then Inl ValueError
      else if section \<in> set (cfg_sections cfg) then Inl DuplicateSectionError
      else Inr (cfg\<lparr>sections := sections cfg @ [(section, [])]\<rparr>))"

fun update_section :: "(string \<times> odict) list \<Rightarrow> string \<Rightarrow> string \<Rightarrow> string \<Rightarrow> (string \<times> odict) list" where
  "update_section [] section k v = []"
| "update_section ((s, d) # rest) section k v =
     (if s = section then (s, dict_set d k v) # rest
      else (s, d) # update_section rest section k v)"

definition cfg_set :: "config \<Rightarrow> string \<Rightarrow> string \<Rightarrow> string \<Rightarrow> error + config" where
  "cfg_set cfg section option v =
     (case (if v \<noteq> [] then before_set v else Inr v) of
        Inl e \<Rightarrow> Inl e
      | Inr v' \<Rightarrow>
          if section = [] \<or> section = default_section
          then Inr (cfg\<lparr>defaults := dict_set (defaults cfg) (optionxform option) v'\<rparr>)
          else if section \<notin> set (cfg_sections cfg) then Inl NoSectionError
          else Inr (cfg\<lparr>sections :=
                      update_section (sections cfg) section (optionxform option) v'\<rparr>))"

definition has_option :: "config \<Rightarrow> string \<Rightarrow> string \<Rightarrow> bool" where
  "has_option cfg section option =
     (if section = [] \<or> section = default_section
      then optionxform option \<in> set (map fst (defaults cfg))
      else (case map_of (sections cfg) section of
              None \<Rightarrow> False
            | Some d \<Rightarrow> optionxform option \<in> set (map fst d)
                       \<or> optionxform option \<in> set (map fst (defaults cfg))))"

text \<open>\<^verbatim>\<open>options\<close>: the section's own keys, then the inherited ones it does not have.\<close>

definition cfg_options :: "config \<Rightarrow> string \<Rightarrow> error + string list" where
  "cfg_options cfg section =
     (case map_of (sections cfg) section of
        None \<Rightarrow> Inl NoSectionError
      | Some d \<Rightarrow> Inr (map fst d @ filter (\<lambda>k. k \<notin> set (map fst d)) (map fst (defaults cfg))))"

text \<open>\<^verbatim>\<open>get(section, option)\<close> without a fallback.\<close>

definition cfg_get :: "config \<Rightarrow> string \<Rightarrow> string \<Rightarrow> error + string" where
  "cfg_get cfg section option =
     (case (case map_of (sections cfg) section of
              None \<Rightarrow> if section \<noteq> default_section then None else Some []
            | Some d \<Rightarrow> Some d) of
        None \<Rightarrow> Inl NoSectionError
      | Some d \<Rightarrow>
          (case chain_lookup d (defaults cfg) (optionxform option) of
             None \<Rightarrow> Inl NoOptionError
           | Some v \<Rightarrow> before_get (chain_lookup d (defaults cfg)) v))"



section \<open>The registry\<close>

text \<open>
  \<^verbatim>\<open>main.py\<close> imports \<^verbatim>\<open>PlugMaster\<close> from the package, whose module is not part of
  the sources at hand. Its data and the operations that \<^verbatim>\<open>main.py\<close> calls are modelled
  from the specification (sections 3 and 4).

  A plug's state is the tri-state of the specification; \<^verbatim>\<open>main.py\<close> reads it as a
  number, \<^verbatim>\<open>plug.state >= 0\<close> for a known state and its truth value for on.
\<close>

datatype pstate = On | Off | Unknown

record plug =
  plug_index :: int
  plug_name :: string
  plug_state :: pstate

record device =
  dev_address :: string
  dev_name :: string
  dev_plugs :: "plug list"

record master =
  m_pin :: int
  m_pout :: int
  m_user :: string
  m_password :: string
  m_devices :: "device list"

text \<open>
  Modelled from the spec: the constructor of the missing class \<^verbatim>\<open>PlugMaster\<close>. The
  registry starts empty (section 4.5).
\<close>

definition PlugMaster :: "int \<Rightarrow> int \<Rightarrow> string \<Rightarrow> string \<Rightarrow> master" where
  "PlugMaster pin pout user password =
     \<lparr>m_pin = pin, m_pout = pout, m_user = user, m_password = password, m_devices = []\<rparr>"

text \<open>
  Modelled from the spec: the missing method \<^verbatim>\<open>PlugMaster.create_device\<close>. It builds a
  device whose plugs are in the unknown state and appends it, and fails when the address
  is already registered (section 4.1).
\<close>

definition create_device :: "master \<Rightarrow> string \<Rightarrow> string \<Rightarrow> (int \<times> string) list \<Rightarrow> error + master" where
  "create_device m address name plug_defs =
     (if address \<in> set (map dev_address (m_devices m)) then Inl DuplicateAddress
      else Inr (m\<lparr>m_devices := m_devices m @
             [\<lparr>dev_address = address, dev_name = name,
               dev_plugs = map (\<lambda>(i, n). \<lparr>plug_index = i, plug_name = n, plug_state = Unknown\<rparr>)
                             plug_defs\<rparr>]\<rparr>))"

text \<open>
  A Python object is named by its place in the registry: a device by its position in
  \<^verbatim>\<open>master.devices\<close>, a plug by its device and its position in \<^verbatim>\<open>device.plugs\<close>. A
  Python set of objects is a list without repetitions; the order in which Python would
  iterate over the set is not specified, and the list's order stands for it.
\<close>

type_synonym devref = nat
type_synonym plugref = "nat \<times> nat"
type_synonym matcher = "string \<Rightarrow> string \<Rightarrow> bool"

text \<open>
  Modelled from the spec: the missing methods \<^verbatim>\<open>PlugMaster.search_device\<close>,
  \<^verbatim>\<open>Device.search_plug\<close> and \<^verbatim>\<open>PlugMaster.search_plug\<close> (sections 4.1 and 4.2). The
  matching of a pattern against a name, which the specification leaves open, is the
  parameter \<open>mt\<close>.
\<close>

definition search_device :: "matcher \<Rightarrow> master \<Rightarrow> string \<Rightarrow> devref list" where
  "search_device mt m pattern =
     filter (\<lambda>i. mt pattern (dev_name (m_devices m ! i)) \<or> mt pattern (dev_address (m_devices m ! i)))
       [0..<length (m_devices m)]"

definition device_search_plug :: "matcher \<Rightarrow> master \<Rightarrow> devref \<Rightarrow> string \<Rightarrow> plugref list" where
  "device_search_plug mt m i pattern =
     map (\<lambda>j. (i, j))
       (filter (\<lambda>j. mt pattern (plug_name (dev_plugs (m_devices m ! i) ! j)))
          [0..<length (dev_plugs (m_devices m ! i))])"

definition search_plug :: "matcher \<Rightarrow> master \<Rightarrow> string \<Rightarrow> plugref list" where
  "search_plug mt m pattern =
     concat (map (\<lambda>i. device_search_plug mt m i pattern) [0..<length (m_devices m)])"

text \<open>
  The calls that a handler makes on the objects it resolved, \<^verbatim>\<open>plug.switch(state)\<close> and
  \<^verbatim>\<open>device.reset()\<close>, are recorded in the order of the loop. What the calls do on the
  network is outside this model: the record is that of a run in which each call returns.
\<close>

datatype call = Plug_switch plugref bool | Device_reset devref

section \<open>The program\<close>

definition GENERAL_SECTION :: string where
  "GENERAL_SECTION = ''GENERAL''"

definition PLUG_PREFIX :: string where
  "PLUG_PREFIX = ''plug_''"

text \<open>
  What a command leaves behind: the value it returns (\<open>None\<close> is Python's \<^verbatim>\<open>None\<close>),
  the text it prints, its calls on plugs and devices, and the state it writes to the
  configuration file, if it writes one.
\<close>

record outcome =
  ret :: "int option"
  printed :: string
  calls :: "call list"
  written :: "config option"

text \<open>\<^verbatim>\<open>sys.exit(main())\<close>: the status of the process.\<close>

definition exit_status :: "int option \<Rightarrow> int" where
  "exit_status r = (case r of None \<Rightarrow> 0 | Some n \<Rightarrow> n)"

subsection \<open>\<^verbatim>\<open>print_master\<close>\<close>

fun print_plugs :: "string \<Rightarrow> plug list \<Rightarrow> string" where
  "print_plugs out [] = out"
| "print_plugs out (plug # rest) =
     print_plugs
       (print
          (out @ ''- '' @ plug_name plug @
           (if plug_state plug \<noteq> Unknown
            then '' ('' @ (if plug_state plug = On then ''on'' else ''off'') @ '')''
            else []))
          [])
       rest"

fun print_devices :: "string \<Rightarrow> nat \<Rightarrow> device list \<Rightarrow> string \<times> nat" where
  "print_devices out plug_count [] = (out, plug_count)"
| "print_devices out plug_count (device # rest) =
     print_devices
       (print (print_plugs (print out (dev_name device @ '' ('' @ dev_address device @ ''):''))
                 (dev_plugs device)) [])
       (plug_count + length (dev_plugs device))
       rest"

definition print_master :: "string \<Rightarrow> master \<Rightarrow> string \<times> nat \<times> nat" where
  "print_master out m =
     (case print_devices out 0 (m_devices m) of
        (out', plug_count) \<Rightarrow> (out', length (m_devices m), plug_count))"

subsection \<open>\<^verbatim>\<open>load_devices\<close>\<close>

text \<open>\<^verbatim>\<open>re.match(PLUG_PREFIX + '\d+', option)\<close>: the pattern is matched at the start only.\<close>

definition plug_key_match :: "string \<Rightarrow> bool" where
  "plug_key_match option =
     (take (length PLUG_PREFIX) option = PLUG_PREFIX
      \<and> (case drop (length PLUG_PREFIX) option of [] \<Rightarrow> False | c # cs \<Rightarrow> is_digit c))"

text \<open>
  The loop over the options of a section (lines 50 to 57) and the loop over the sections
  (lines 37 to 59). An exception ends the load, and what was printed before it is not
  part of the result.
\<close>

fun load_plugs :: "config \<Rightarrow> string \<Rightarrow> string list \<Rightarrow> (int \<times> string) list \<Rightarrow> error + (int \<times> string) list" where
  "load_plugs config section [] plugs = Inr plugs"
| "load_plugs config section (option # rest) plugs =
     (if \<not> plug_key_match option then load_plugs config section rest plugs
      else (case py_int (drop (length PLUG_PREFIX) option) of
              None \<Rightarrow> Inl ValueError
            | Some index \<Rightarrow>
                (case cfg_get config section option of
                   Inl e \<Rightarrow> Inl e
                 | Inr pname \<Rightarrow> load_plugs config section rest (plugs @ [(index, pname)]))))"

fun load_sections :: "config \<Rightarrow> string list \<Rightarrow> master \<times> string \<Rightarrow> error + master \<times> string" where
  "load_sections config [] st = Inr st"
| "load_sections config (section # rest) (m, out) =
     (if section = GENERAL_SECTION then load_sections config rest (m, out)
      else if \<not> has_option config section ''name''
      then load_sections config rest
             (m, print out ''Device without name in configuration, skipping'')
      else (case cfg_get config section ''name'' of
              Inl e \<Rightarrow> Inl e
            | Inr name \<Rightarrow>
                (case cfg_options config section of
                   Inl e \<Rightarrow> Inl e
                 | Inr opts \<Rightarrow>
                     (case load_plugs config section opts [] of
                        Inl e \<Rightarrow> Inl e
                      | Inr plugs \<Rightarrow>
                          (case create_device m section name plugs of
                             Inl e \<Rightarrow> Inl e
                           | Inr m' \<Rightarrow> load_sections config rest (m', out))))))"

definition load_devices :: "master \<Rightarrow> config \<Rightarrow> error + master \<times> string" where
  "load_devices m config = load_sections config (cfg_sections config) (m, [])"

subsection \<open>\<^verbatim>\<open>switch\<close> and \<^verbatim>\<open>reset\<close>\<close>

text \<open>
  The first part of \<^verbatim>\<open>switch\<close>, the choice by the number of arguments: the message of
  an early return, or the set \<^verbatim>\<open>plugs\<close>. \<^verbatim>\<open>plugs.update\<close> is \<^const>\<open>List.union\<close>.
\<close>

definition switch_plugs :: "matcher \<Rightarrow> master \<Rightarrow> string list \<Rightarrow> string + plugref list" where
  "switch_plugs mt m args =
     (if length args = 0
      then Inl ''Not enough arguments. Please add at least a plug name.''
      else if length args = 1 then Inr (search_plug mt m (args ! 0))
      else if length args = 2
      then Inr (fold (\<lambda>device plugs. List.union (device_search_plug mt m device (args ! 1)) plugs)
                  (search_device mt m (args ! 0)) [])
      else Inl ''Too many arguments. Only plug name and optionally device name expected.'')"

definition switch :: "matcher \<Rightarrow> master \<Rightarrow> string list \<Rightarrow> bool \<Rightarrow> outcome" where
  "switch mt m args state =
     (case switch_plugs mt m args of
        Inl msg \<Rightarrow> \<lparr>ret = Some 1, printed = print [] msg, calls = [], written = None\<rparr>
      | Inr plugs \<Rightarrow>
          if length plugs = 0
          then \<lparr>ret = Some 1, printed = print [] ''No matching plugs found, sorry'',
                calls = [], written = None\<rparr>
          else \<lparr>ret = None,
                printed = (if length plugs > 1
                           then print [] ''Warning: Setting multiple matching plugs'' else []),
                calls = map (\<lambda>plug. Plug_switch plug state) plugs, written = None\<rparr>)"

text \<open>The first part of \<^verbatim>\<open>reset\<close>, in the same way.\<close>

definition reset_devices :: "matcher \<Rightarrow> master \<Rightarrow> string list \<Rightarrow> string + devref list" where
  "reset_devices mt m args =
     (if length args = 0 then Inl ''Not enough arguments. Please add the device name.''
      else if length args = 1 then Inr (search_device mt m (args ! 0))
      else Inl ''Too many arguments. Only device name expected.'')"

definition reset :: "matcher \<Rightarrow> master \<Rightarrow> string list \<Rightarrow> outcome" where
  "reset mt m args =
     (case reset_devices mt m args of
        Inl msg \<Rightarrow> \<lparr>ret = Some 1, printed = print [] msg, calls = [], written = None\<rparr>
      | Inr devices \<Rightarrow>
          if length devices = 0
          then \<lparr>ret = Some 1, printed = print [] ''No matching devices found, sorry'',
                calls = [], written = None\<rparr>
          else \<lparr>ret = None,
                printed = (if length devices > 1
                           then print [] ''Warning: Resetting multiple matching devices'' else []),
                calls = map Device_reset devices, written = None\<rparr>)"

subsection \<open>\<^verbatim>\<open>save\<close> and \<^verbatim>\<open>show\<close>\<close>

text \<open>The loop over the plugs of a device and the loop over the devices.\<close>

fun save_plugs :: "config \<Rightarrow> string \<Rightarrow> plug list \<Rightarrow> error + config" where
  "save_plugs parser address [] = Inr parser"
| "save_plugs parser address (plug # rest) =
     (case cfg_set parser address (PLUG_PREFIX @ py_str (plug_index plug)) (plug_name plug) of
        Inl e \<Rightarrow> Inl e
      | Inr parser' \<Rightarrow> save_plugs parser' address rest)"

fun save_devices :: "config \<Rightarrow> device list \<Rightarrow> error + config" where
  "save_devices parser [] = Inr parser"
| "save_devices parser (device # rest) =
     (case add_section parser (dev_address device) of
        Inl e \<Rightarrow> Inl e
      | Inr p1 \<Rightarrow>
          (case cfg_set p1 (dev_address device) ''name'' (dev_name device) of
             Inl e \<Rightarrow> Inl e
           | Inr p2 \<Rightarrow>
               (case save_plugs p2 (dev_address device) (dev_plugs device) of
                  Inl e \<Rightarrow> Inl e
                | Inr p3 \<Rightarrow> save_devices p3 rest)))"

text \<open>The state of the parser that \<^verbatim>\<open>save\<close> writes to the file.\<close>

definition save_parser :: "master \<Rightarrow> error + config" where
  "save_parser m =
     (case add_section ConfigParser GENERAL_SECTION of
        Inl e \<Rightarrow> Inl e
      | Inr p0 \<Rightarrow>
     (case cfg_set p0 GENERAL_SECTION ''user'' (m_user m) of
        Inl e \<Rightarrow> Inl e
      | Inr p1 \<Rightarrow>
     (case cfg_set p1 GENERAL_SECTION ''password'' (m_password m) of
        Inl e \<Rightarrow> Inl e
      | Inr p2 \<Rightarrow>
     (case cfg_set p2 GENERAL_SECTION ''pin'' (py_str (m_pin m)) of
        Inl e \<Rightarrow> Inl e
      | Inr p3 \<Rightarrow>
     (case cfg_set p3 GENERAL_SECTION ''pout'' (py_str (m_pout m)) of
        Inl e \<Rightarrow> Inl e
      | Inr p4 \<Rightarrow> save_devices p4 (m_devices m))))))"

definition save :: "master \<Rightarrow> string list \<Rightarrow> error + outcome" where
  "save m args =
     (case save_parser m of
        Inl e \<Rightarrow> Inl e
      | Inr parser \<Rightarrow>
          (case print_master [] m of
             (out, device_count, plug_count) \<Rightarrow>
               Inr \<lparr>ret = None,
                    printed =
                      (if device_count \<noteq> 0
                       then print out (''Saved config with '' @ py_str (int device_count)
                              @ '' device(s) and '' @ py_str (int plug_count) @ '' plugs'')
                       else print out ''Saved config without any devices''),
                    calls = [], written = Some parser\<rparr>))"


subsection \<open>\<^verbatim>\<open>main\<close>\<close>







section \<open>The written configuration in closed form\<close>



definition general_entries :: "master \<Rightarrow> odict" where
  "general_entries m =
     [(''user'', m_user m), (''password'', m_password m),
      (''pin'', py_str (m_pin m)), (''pout'', py_str (m_pout m))]"




section \<open>Example registries and configurations\<close>

text \<open>Two devices that both have a plug named \<^verbatim>\<open>Desk\<close>.\<close>

definition two_strips :: master where
  "two_strips =
     \<lparr>m_pin = 75, m_pout = 77, m_user = ''admin'', m_password = ''anel'',
      m_devices =
        [\<lparr>dev_address = ''192.168.1.50'', dev_name = ''Strip1'',
          dev_plugs = [\<lparr>plug_index = 1, plug_name = ''Desk'', plug_state = Unknown\<rparr>,
                       \<lparr>plug_index = 2, plug_name = ''Fan'', plug_state = Unknown\<rparr>]\<rparr>,
         \<lparr>dev_address = ''192.168.1.51'', dev_name = ''Strip2'',
          dev_plugs = [\<lparr>plug_index = 1, plug_name = ''Desk'', plug_state = Unknown\<rparr>]\<rparr>]\<rparr>"

text \<open>
  A stored configuration: a general section without a password and an outbound port, a
  device whose plug keys are not in the order of their numbers, a section without a
  name, and a device with a key that is not a plug key.
\<close>

definition stored :: config where
  "stored =
     \<lparr>defaults = [],
      sections =
        [(''GENERAL'', [(''user'', ''bob''), (''pin'', ''80'')]),
         (''192.168.1.50'', [(''name'', ''Strip1''), (''plug_2'', ''Fan''), (''plug_1'', ''Lamp'')]),
         (''192.168.1.60'', [(''plug_1'', ''Heater'')]),
         (''192.168.1.70'', [(''name'', ''Strip3''), (''location'', ''attic''), (''plug_1'', ''Pump'')])]\<rparr>"

text \<open>The registry that \<^const>\<open>stored\<close> loads into.\<close>

definition stored_loaded :: master where
  "stored_loaded =
     \<lparr>m_pin = 80, m_pout = 77, m_user = ''bob'', m_password = ''anel'',
      m_devices =
        [\<lparr>dev_address = ''192.168.1.50'', dev_name = ''Strip1'',
          dev_plugs = [\<lparr>plug_index = 2, plug_name = ''Fan'', plug_state = Unknown\<rparr>,
                       \<lparr>plug_index = 1, plug_name = ''Lamp'', plug_state = Unknown\<rparr>]\<rparr>,
         \<lparr>dev_address = ''192.168.1.70'', dev_name = ''Strip3'',
          dev_plugs = [\<lparr>plug_index = 1, plug_name = ''Pump'', plug_state = Unknown\<rparr>]\<rparr>]\<rparr>"

text \<open>A device section with a key that begins like a plug key and goes on after the digits.\<close>

definition suffixed_key :: config where
  "suffixed_key =
     \<lparr>defaults = [],
      sections = [(''192.168.1.50'', [(''name'', ''Strip1''), (''plug_1a'', ''Lamp'')])]\<rparr>"


text \<open>A registry with a device whose address is the name of the general section.\<close>

definition general_named :: master where
  "general_named =
     \<lparr>m_pin = 75, m_pout = 77, m_user = ''admin'', m_password = ''anel'',
      m_devices =
        [\<lparr>dev_address = ''GENERAL'', dev_name = ''Strip1'',
          dev_plugs = [\<lparr>plug_index = 1, plug_name = ''Lamp'', plug_state = Unknown\<rparr>]\<rparr>]\<rparr>"

text \<open>A registry with one device and one plug, which is switched on.\<close>

definition one_device :: "string \<Rightarrow> string \<Rightarrow> int \<Rightarrow> master" where
  "one_device address name index =
     \<lparr>m_pin = 75, m_pout = 77, m_user = ''admin'', m_password = ''anel'',
      m_devices =
        [\<lparr>dev_address = address, dev_name = name,
          dev_plugs = [\<lparr>plug_index = index, plug_name = ''Lamp'', plug_state = On\<rparr>]\<rparr>]\<rparr>"

text \<open>Two devices, the first with an empty address.\<close>

definition unaddressed :: master where
  "unaddressed =
     \<lparr>m_pin = 75, m_pout = 77, m_user = ''admin'', m_password = ''anel'',
      m_devices =
        [\<lparr>dev_address = [], dev_name = ''Strip1'',
          dev_plugs = [\<lparr>plug_index = 1, plug_name = ''Lamp'', plug_state = Unknown\<rparr>]\<rparr>,
         \<lparr>dev_address = ''192.168.1.51'', dev_name = ''Strip2'',
          dev_plugs = [\<lparr>plug_index = 2, plug_name = ''Fan'', plug_state = Unknown\<rparr>]\<rparr>]\<rparr>"

section \<open>The handlers \<^verbatim>\<open>switch\<close> and \<^verbatim>\<open>reset\<close>\<close>

lemma set_fold_union:
  "set (fold (\<lambda>d acc. List.union (f d) acc) ds acc0) = set acc0 \<union> (\<Union>d\<in>set ds. set (f d))"
  by (induction ds arbitrary: acc0) auto

lemma device_search_plug_owner:
  "p \<in> set (device_search_plug mt m d pattern) \<Longrightarrow> fst p = d"
  by (auto simp: device_search_plug_def)


text \<open>
  Claim C6. \<^verbatim>\<open>on\<close> and \<^verbatim>\<open>off\<close> (\<^const>\<open>switch\<close> with either state) with no argument, or
  with three or more, print an error, return 1 and make no call on a plug; \<^verbatim>\<open>reset\<close>
  with two or more arguments prints an error, returns 1 and makes no call on a device.
  The status of the process is then not zero.
\<close>

theorem arity_gate:
  "(length args = 0 \<longrightarrow>
      switch mt m args state =
        \<lparr>ret = Some 1,
         printed = print [] ''Not enough arguments. Please add at least a plug name.'',
         calls = [], written = None\<rparr>)
   \<and> (3 \<le> length args \<longrightarrow>
      switch mt m args state =
        \<lparr>ret = Some 1,
         printed = print []
           ''Too many arguments. Only plug name and optionally device name expected.'',
         calls = [], written = None\<rparr>)
   \<and> (2 \<le> length args \<longrightarrow>
      reset mt m args =
        \<lparr>ret = Some 1, printed = print [] ''Too many arguments. Only device name expected.'',
         calls = [], written = None\<rparr>)
   \<and> exit_status (Some 1) \<noteq> 0"
  by (simp add: switch_def switch_plugs_def reset_def reset_devices_def exit_status_def)

theorem arity_gate_witness:
  "length ([] :: string list) = 0
   \<and> switch (=) two_strips [] True =
        \<lparr>ret = Some 1,
         printed = print [] ''Not enough arguments. Please add at least a plug name.'',
         calls = [], written = None\<rparr>
   \<and> 3 \<le> length [''Strip1'', ''Desk'', ''Fan'']
   \<and> switch (=) two_strips [''Strip1'', ''Desk'', ''Fan''] False =
        \<lparr>ret = Some 1,
         printed = print []
           ''Too many arguments. Only plug name and optionally device name expected.'',
         calls = [], written = None\<rparr>
   \<and> 2 \<le> length [''Strip1'', ''Strip2'']
   \<and> reset (=) two_strips [''Strip1'', ''Strip2''] =
        \<lparr>ret = Some 1, printed = print [] ''Too many arguments. Only device name expected.'',
         calls = [], written = None\<rparr>"
  using arity_gate [of "[]" "(=)" two_strips True]
        arity_gate [of "[''Strip1'', ''Desk'', ''Fan'']" "(=)" two_strips False]
        arity_gate [of "[''Strip1'', ''Strip2'']" "(=)" two_strips True]
  by simp



text \<open>
  Claim C7. With exactly two arguments the set of plugs that \<^verbatim>\<open>switch\<close> resolves is the
  union, over the devices that \<^verbatim>\<open>search_device\<close> returns for the first argument, of each
  such device's own \<^verbatim>\<open>search_plug\<close> for the second. Every resolved plug belongs to one
  of these devices, and the calls of the handler are the calls on this set.
\<close>

theorem qualified_union:
  "length args = 2 \<Longrightarrow>
   \<exists>plugs. switch_plugs mt m args = Inr plugs
     \<and> set plugs = (\<Union>device\<in>set (search_device mt m (args ! 0)).
                      set (device_search_plug mt m device (args ! 1)))
     \<and> (\<forall>plug\<in>set plugs. fst plug \<in> set (search_device mt m (args ! 0)))
     \<and> set (calls (switch mt m args state)) = (\<lambda>plug. Plug_switch plug state) ` set plugs"
proof -
  assume a: "length args = 2"
  let ?plugs = "fold (\<lambda>device plugs. List.union (device_search_plug mt m device (args ! 1)) plugs)
                  (search_device mt m (args ! 0)) []"
  have r: "switch_plugs mt m args = Inr ?plugs"
    using a by (simp add: switch_plugs_def)
  have s: "set ?plugs = (\<Union>device\<in>set (search_device mt m (args ! 0)).
                      set (device_search_plug mt m device (args ! 1)))"
    by (simp add: set_fold_union)
  have o: "\<forall>plug\<in>set ?plugs. fst plug \<in> set (search_device mt m (args ! 0))"
    unfolding s using device_search_plug_owner by blast
  have c: "set (calls (switch mt m args state)) = (\<lambda>plug. Plug_switch plug state) ` set ?plugs"
    by (simp add: switch_def r)
  from r s o c show ?thesis by blast
qed

theorem qualified_union_witness:
  "length [''Strip2'', ''Desk''] = 2
   \<and> switch_plugs (=) two_strips [''Strip2'', ''Desk''] = Inr [(1, 0)]
   \<and> search_device (=) two_strips ''Strip2'' = [1]
   \<and> set (calls (switch (=) two_strips [''Strip2'', ''Desk''] True)) = {Plug_switch (1, 0) True}"
proof -
  have l: "length [''Strip2'', ''Desk''] = 2" by simp
  have p: "switch_plugs (=) two_strips [''Strip2'', ''Desk''] = Inr [(1, 0)]" by code_simp
  have d: "search_device (=) two_strips ''Strip2'' = [1]" by code_simp
  from qualified_union [OF l, of "(=)" two_strips True] p d l show ?thesis by auto
qed

section \<open>Loading the configuration\<close>










text \<open>
  Claim C5. The key \<^verbatim>\<open>plug_1a\<close> is not a plug key (digits and nothing else after the
  prefix), so the load should pass over it. The pattern of the program is matched at
  the start of the key only: the key matches, \<^verbatim>\<open>int('1a')\<close> raises \<^verbatim>\<open>ValueError\<close>, and
  the load ends with this error.
\<close>

theorem suffixed_plug_key_raises:
  "cfg_options suffixed_key ''192.168.1.50'' = Inr [''name'', ''plug_1a'']
   \<and> plug_key_match ''plug_1a''
   \<and> py_int (drop (length PLUG_PREFIX) ''plug_1a'') = None
   \<and> load_devices (PlugMaster 75 77 ''admin'' ''anel'') suffixed_key = Inl ValueError"
  by code_simp

section \<open>Saving the registry\<close>

lemma update_section_names: "map fst (update_section S s k v) = map fst S"
  by (induction S s k v rule: update_section.induct) auto

lemma cfg_set_sections:
  "cfg_set p section k v = Inr p' \<Longrightarrow> cfg_sections p' = cfg_sections p"
  by (auto simp: cfg_set_def cfg_sections_def update_section_names split: sum.splits if_splits)

lemma add_section_sections:
  "add_section p section = Inr p' \<Longrightarrow> cfg_sections p' = cfg_sections p @ [section]"
  by (auto simp: add_section_def cfg_sections_def split: if_splits)

lemma save_plugs_sections:
  "save_plugs p address plugs = Inr p' \<Longrightarrow> cfg_sections p' = cfg_sections p"
proof (induction plugs arbitrary: p)
  case Nil
  then show ?case by simp
next
  case (Cons plug plugs)
  then show ?case by (auto split: sum.splits dest: cfg_set_sections)
qed

lemma save_devices_duplicate:
  "s \<in> set (cfg_sections p) \<Longrightarrow> s \<in> set (map dev_address devs) \<Longrightarrow>
   \<exists>e. save_devices p devs = Inl e"
proof (induction devs arbitrary: p)
  case Nil
  then show ?case by simp
next
  case (Cons device devs)
  show ?case
  proof (cases "add_section p (dev_address device)")
    case (Inl e)
    then show ?thesis by simp
  next
    case p1: (Inr p1)
    then have ne: "dev_address device \<noteq> s"
      using Cons.prems(1) by (auto simp: add_section_def split: if_splits)
    have s1: "s \<in> set (cfg_sections p1)"
      using add_section_sections [OF p1] Cons.prems(1) by simp
    show ?thesis
    proof (cases "cfg_set p1 (dev_address device) ''name'' (dev_name device)")
      case (Inl e)
      with p1 show ?thesis by simp
    next
      case p2: (Inr p2)
      have s2: "s \<in> set (cfg_sections p2)"
        using cfg_set_sections [OF p2] s1 by simp
      show ?thesis
      proof (cases "save_plugs p2 (dev_address device) (dev_plugs device)")
        case (Inl e)
        with p1 p2 show ?thesis by simp
      next
        case p3: (Inr p3)
        have s3: "s \<in> set (cfg_sections p3)"
          using save_plugs_sections [OF p3] s2 by simp
        have "s \<in> set (map dev_address devs)"
          using Cons.prems(2) ne by auto
        from Cons.IH [OF s3 this] p1 p2 p3 show ?thesis by simp
      qed
    qed
  qed
qed

lemma save_parser_general:
  "GENERAL_SECTION \<in> set (map dev_address (m_devices R)) \<Longrightarrow> \<exists>e. save_parser R = Inl e"
proof -
  assume g: "GENERAL_SECTION \<in> set (map dev_address (m_devices R))"
  have "\<exists>e. save_devices p4 (m_devices R) = Inl e"
    if "add_section ConfigParser GENERAL_SECTION = Inr p0"
      "cfg_set p0 GENERAL_SECTION ''user'' (m_user R) = Inr p1"
      "cfg_set p1 GENERAL_SECTION ''password'' (m_password R) = Inr p2"
      "cfg_set p2 GENERAL_SECTION ''pin'' (py_str (m_pin R)) = Inr p3"
      "cfg_set p3 GENERAL_SECTION ''pout'' (py_str (m_pout R)) = Inr p4"
    for p0 p1 p2 p3 p4
  proof -
    have "GENERAL_SECTION \<in> set (cfg_sections p4)"
      using that by (auto dest!: cfg_set_sections add_section_sections)
    then show ?thesis using g by (rule save_devices_duplicate)
  qed
  then show ?thesis
    by (auto simp: save_parser_def split: sum.splits)
qed

lemma load_sections_addresses:
  "load_sections config secs (m, out) = Inr (m', out') \<Longrightarrow>
   set (map dev_address (m_devices m'))
     \<subseteq> set (map dev_address (m_devices m)) \<union> (set secs - {GENERAL_SECTION})"
proof (induction secs arbitrary: m out)
  case Nil
  then show ?case by simp
next
  case (Cons sec secs)
  show ?case
  proof (cases "sec = GENERAL_SECTION \<or> \<not> has_option config sec ''name''")
    case True
    with Cons.prems obtain o1 where "load_sections config secs (m, o1) = Inr (m', out')"
      by (auto split: if_splits)
    from Cons.IH [OF this] show ?thesis by auto
  next
    case False
    with Cons.prems obtain name plugs m1 where
      c: "create_device m sec name plugs = Inr m1"
      and l: "load_sections config secs (m1, out) = Inr (m', out')"
      by (auto split: sum.splits)
    from c have "set (map dev_address (m_devices m1))
        = insert sec (set (map dev_address (m_devices m)))"
      by (auto simp: create_device_def split: if_splits)
    with Cons.IH [OF l] False show ?thesis by auto
  qed
qed

text \<open>
  Claim C10. \<^verbatim>\<open>load_devices\<close>, started on the empty registry as \<^verbatim>\<open>main\<close> does, never
  creates a device whose address is \<^verbatim>\<open>GENERAL\<close>. A registry that has a device with
  this address cannot be saved: \<^verbatim>\<open>save\<close> raises before it writes the file (the section
  exists already when \<^verbatim>\<open>add_section\<close> is called for the device), so no round trip
  returns such a registry.
\<close>

theorem general_never_loaded:
  "(load_devices (PlugMaster pin pout user password) config = Inr (m', out) \<longrightarrow>
      GENERAL_SECTION \<notin> set (map dev_address (m_devices m')))
   \<and> (GENERAL_SECTION \<in> set (map dev_address (m_devices R)) \<longrightarrow>
      (\<exists>e. save R args = Inl e))"
proof -
  have a: "GENERAL_SECTION \<notin> set (map dev_address (m_devices m'))"
    if "load_devices (PlugMaster pin pout user password) config = Inr (m', out)"
    using load_sections_addresses [of config "cfg_sections config"
        "PlugMaster pin pout user password" "[]" m' out] that
    by (auto simp: load_devices_def PlugMaster_def)
  have b: "\<exists>e. save R args = Inl e"
    if "GENERAL_SECTION \<in> set (map dev_address (m_devices R))"
    using save_parser_general [OF that] by (auto simp: save_def)
  from a b show ?thesis by blast
qed

theorem general_never_loaded_witness:
  "load_devices (PlugMaster 80 77 ''bob'' ''anel'') stored =
     Inr (stored_loaded, print [] ''Device without name in configuration, skipping'')
   \<and> GENERAL_SECTION \<notin> set (map dev_address (m_devices stored_loaded))
   \<and> GENERAL_SECTION \<in> set (map dev_address (m_devices general_named))
   \<and> save general_named [] = Inl DuplicateSectionError"
proof -
  have a: "load_devices (PlugMaster 80 77 ''bob'' ''anel'') stored =
     Inr (stored_loaded, print [] ''Device without name in configuration, skipping'')"
    by code_simp
  have b: "GENERAL_SECTION \<in> set (map dev_address (m_devices general_named))"
    by code_simp
  have c: "save general_named [] = Inl DuplicateSectionError"
    by code_simp
  from general_never_loaded [of 80 77 "''bob''" "''anel''" stored stored_loaded
      "print [] ''Device without name in configuration, skipping''" general_named "[]"] a b c
  show ?thesis by simp
qed






section \<open>The round trip\<close>

subsection \<open>Numbers and their text\<close>


















subsection \<open>Plug keys, plain values and the last section of a parser\<close>

lemma plug_key_drop: "drop (length PLUG_PREFIX) (PLUG_PREFIX @ s) = s"
  by simp














subsection \<open>What \<^verbatim>\<open>save\<close> writes\<close>






subsection \<open>What a reload reads\<close>













text \<open>
  The other conditions are needed as well: the address \<^verbatim>\<open>DEFAULT\<close> and a name with a
  percent sign are rejected by the parser, and a plug with a negative index is written
  under a key that the load does not take for a plug key. With an empty address the
  parser stores the options of the device as those of the \<^verbatim>\<open>DEFAULT\<close> section, and
  every other device inherits them.
\<close>

lemma round_trip_limits:
  "save (one_device ''DEFAULT'' ''Strip1'' 1) [] = Inl ValueError
   \<and> save (one_device ''192.168.1.50'' ''50%'' 1) [] = Inl ValueError
   \<and> save_parser (one_device ''192.168.1.50'' ''Strip1'' (- 1)) =
       Inr \<lparr>defaults = [],
            sections = [(''GENERAL'', general_entries (one_device ''192.168.1.50'' ''Strip1'' (- 1))),
                        (''192.168.1.50'', [(''name'', ''Strip1''), (''plug_-1'', ''Lamp'')])]\<rparr>
   \<and> load_devices (PlugMaster 75 77 ''admin'' ''anel'')
         \<lparr>defaults = [],
          sections = [(''GENERAL'', general_entries (one_device ''192.168.1.50'' ''Strip1'' (- 1))),
                      (''192.168.1.50'', [(''name'', ''Strip1''), (''plug_-1'', ''Lamp'')])]\<rparr> =
       Inr (PlugMaster 75 77 ''admin'' ''anel''
              \<lparr>m_devices := [\<lparr>dev_address = ''192.168.1.50'', dev_name = ''Strip1'',
                               dev_plugs = []\<rparr>]\<rparr>, [])"
  by code_simp

lemma empty_address_leaks:
  "save_parser unaddressed =
     Inr \<lparr>defaults = [(''name'', ''Strip1''), (''plug_1'', ''Lamp'')],
          sections = [(''GENERAL'', general_entries unaddressed), ([], []),
                      (''192.168.1.51'', [(''name'', ''Strip2''), (''plug_2'', ''Fan'')])]\<rparr>
   \<and> load_devices (PlugMaster 75 77 ''admin'' ''anel'')
         \<lparr>defaults = [(''name'', ''Strip1''), (''plug_1'', ''Lamp'')],
          sections = [(''GENERAL'', general_entries unaddressed), ([], []),
                      (''192.168.1.51'', [(''name'', ''Strip2''), (''plug_2'', ''Fan'')])]\<rparr> =
       Inr (PlugMaster 75 77 ''admin'' ''anel''
              \<lparr>m_devices :=
                 [\<lparr>dev_address = [], dev_name = ''Strip1'',
                   dev_plugs = [\<lparr>plug_index = 1, plug_name = ''Lamp'', plug_state = Unknown\<rparr>]\<rparr>,
                  \<lparr>dev_address = ''192.168.1.51'', dev_name = ''Strip2'',
                   dev_plugs = [\<lparr>plug_index = 2, plug_name = ''Fan'', plug_state = Unknown\<rparr>,
                                \<lparr>plug_index = 1, plug_name = ''Lamp'', plug_state = Unknown\<rparr>]\<rparr>]\<rparr>,
            [])"
  by code_simp

end
